theory Spec2Isabelle
  imports Main "HOL-Library.Word" "HOL-Library.AList"
begin

section \<open>The commit log of distributed-services-with-go\<close>

text \<open>
  A shallow embedding of \<^verbatim>\<open>WriteALogPackage/internal/log\<close>: \<^verbatim>\<open>segment.go\<close> and
  \<^verbatim>\<open>log.go\<close> are translated from their Go source; \<^verbatim>\<open>store.go\<close>, \<^verbatim>\<open>index.go\<close> and
  \<^verbatim>\<open>config.go\<close> are not part of the sources at hand and are modelled from the
  specification (each such definition says so).

  Go's \<^verbatim>\<open>uint64\<close> and \<^verbatim>\<open>uint32\<close> are words, so every addition and subtraction wraps
  as in the program. A method that mutates its receiver returns the new state next to
  its result. The files of the log directory are part of the state of the log.
\<close>

subsection \<open>Machine integers, bytes, errors\<close>

type_synonym byte = "8 word"
type_synonym uint32 = "32 word"
type_synonym uint64 = "64 word"

text \<open>
  The error values that reach a caller of the package. \<open>ErrOffsetOutOfRange\<close> is
  \<^verbatim>\<open>api.ErrOffsetOutOfRange{Offset: off}\<close>; the others are the error kinds the
  specification names for the store and the index, and the errors of the serialiser.
\<close>

datatype error =
    ErrOffsetOutOfRange uint64
  | ErrIndexOutOfRange
  | ErrIndexFull
  | ErrIO
  | ErrMarshal
  | ErrUnmarshal

text \<open>
  How a call ends: it returns, it panics (a nil pointer, an index out of range), the
  runtime stops the program with a fatal error, or it blocks for ever.
\<close>

datatype 'a exec = Ret 'a | Panic | Fatal | Blocks

subsection \<open>Big-endian integers (\<^verbatim>\<open>encoding/binary\<close>, \<^verbatim>\<open>binary.BigEndian\<close>)\<close>

fun enc_be :: "nat \<Rightarrow> nat \<Rightarrow> byte list" where
  "enc_be 0 n = []"
| "enc_be (Suc k) n = enc_be k (n div 256) @ [of_nat (n mod 256)]"

definition dec_be :: "byte list \<Rightarrow> nat" where
  "dec_be bs = foldl (\<lambda>acc b. acc * 256 + unat b) 0 bs"

definition lenWidth :: nat where "lenWidth = 8"
definition offWidth :: nat where "offWidth = 4"
definition posWidth :: nat where "posWidth = 8"
definition entWidth :: nat where "entWidth = offWidth + posWidth"

definition PutUint64 :: "uint64 \<Rightarrow> byte list" where
  "PutUint64 w = enc_be 8 (unat w)"

definition Uint64 :: "byte list \<Rightarrow> uint64" where
  "Uint64 bs = of_nat (dec_be bs)"

definition PutUint32 :: "uint32 \<Rightarrow> byte list" where
  "PutUint32 w = enc_be 4 (unat w)"

definition Uint32 :: "byte list \<Rightarrow> uint32" where
  "Uint32 bs = of_nat (dec_be bs)"

subsection \<open>The log directory\<close>

text \<open>
  A file of the directory is named \<^verbatim>\<open>fmt.Sprintf("%d%s", baseOffset, ext)\<close> with
  \<^verbatim>\<open>ext\<close> one of \<^verbatim>\<open>".store"\<close> and \<^verbatim>\<open>".index"\<close>; a name is modelled as the pair
  of the number and the extension, which is what \<^verbatim>\<open>setup\<close> parses back out of it.
  The directory is an association list from names to file contents, in order of
  creation. An open file is referred to by its name.
\<close>

datatype ext = StoreExt | IndexExt

type_synonym fname = "uint64 \<times> ext"
type_synonym dir = "(fname \<times> byte list) list"

text \<open>\<^verbatim>\<open>os.OpenFile(name, os.O_RDWR|os.O_CREATE|..., 0644)\<close>: an absent file is created
  empty, an existing one is left as it is.\<close>

definition OpenFile :: "fname \<Rightarrow> dir \<Rightarrow> dir" where
  "OpenFile n d = (case map_of d n of None \<Rightarrow> d @ [(n, [])] | Some f \<Rightarrow> d)"

text \<open>\<^verbatim>\<open>os.Truncate(name, size)\<close>: cuts the file, or extends it with zero bytes.\<close>

definition Truncate :: "nat \<Rightarrow> byte list \<Rightarrow> byte list" where
  "Truncate n f = take n f @ replicate (n - length f) 0"

text \<open>Writing bytes at a position inside a file (the memory map of the index).\<close>

definition write_at :: "nat \<Rightarrow> byte list \<Rightarrow> byte list \<Rightarrow> byte list" where
  "write_at pos bs f = take pos f @ bs @ drop (pos + length bs) f"

text \<open>The largest size of a file: offsets in a file are \<^verbatim>\<open>int64\<close>.\<close>

definition maxFileSize :: nat where "maxFileSize = 2 ^ 63 - 1"

subsection \<open>Configuration and records\<close>

text \<open>Modelled from the spec: \<^verbatim>\<open>Config\<close> (\<^verbatim>\<open>config.go\<close>), the three fields that
  the log, the segment and the index consume.\<close>

record SegmentConfig =
  MaxStoreBytes :: uint64
  MaxIndexBytes :: uint64
  InitialOffset :: uint64

record Config =
  Segment :: SegmentConfig

text \<open>Modelled from the spec: \<^verbatim>\<open>api.Record\<close>, an opaque payload and the offset the
  segment stamps on it.\<close>

record Record =
  Value :: "byte list"
  Offset :: uint64

text \<open>
  \<^verbatim>\<open>proto.Marshal\<close> and \<^verbatim>\<open>proto.Unmarshal\<close> belong to the protobuf library; the log
  only passes their bytes through. They are a parameter of the model.
\<close>

record codec =
  Marshal :: "Record \<Rightarrow> byte list option"
  Unmarshal :: "byte list \<Rightarrow> Record option"

subsection \<open>Store\<close>

text \<open>Modelled from the spec: \<^verbatim>\<open>store\<close> (\<^verbatim>\<open>store.go\<close>): the file it wraps and the
  running counter of its size.\<close>

record store =
  store_name :: fname
  store_size :: uint64

text \<open>Modelled from the spec: \<^verbatim>\<open>newStore\<close>; the counter starts at the size of the
  file.\<close>

definition newStore :: "fname \<Rightarrow> dir \<Rightarrow> error + store" where
  "newStore n d =
     (case map_of d n of
        None \<Rightarrow> Inl ErrIO
      | Some f \<Rightarrow> Inr \<lparr>store_name = n, store_size = of_nat (length f)\<rparr>)"

text \<open>
  Modelled from the spec: \<^verbatim>\<open>store.Append\<close>. It writes the 8-byte big-endian length
  and the data at the end of the file (the file is opened with \<^verbatim>\<open>O_APPEND\<close>), returns
  the number of bytes written and the position, which is the counter before the write,
  and advances the counter. The specification allows buffering as long as reads see
  the buffered data; the model writes through. A write that would take the file past
  \<open>maxFileSize\<close> fails.
\<close>

definition store_Append ::
  "store \<Rightarrow> byte list \<Rightarrow> dir \<Rightarrow> (error + uint64 \<times> uint64) \<times> store \<times> dir" where
  "store_Append s p d =
     (case map_of d (store_name s) of
        None \<Rightarrow> (Inl ErrIO, s, d)
      | Some f \<Rightarrow>
          if maxFileSize < length f + lenWidth + length p then (Inl ErrIO, s, d)
          else
            let pos = store_size s;
                w = of_nat (length p) + of_nat lenWidth
            in (Inr (w, pos),
                s\<lparr>store_size := store_size s + w\<rparr>,
                AList.update (store_name s) (f @ PutUint64 (of_nat (length p)) @ p) d))"

text \<open>Modelled from the spec: \<^verbatim>\<open>store.Read\<close>. It reads the length at the position
  and then that many bytes; a position outside the file is an I/O error.\<close>

definition store_Read :: "store \<Rightarrow> uint64 \<Rightarrow> dir \<Rightarrow> error + byte list" where
  "store_Read s pos d =
     (case map_of d (store_name s) of
        None \<Rightarrow> Inl ErrIO
      | Some f \<Rightarrow>
          if length f < unat pos + lenWidth then Inl ErrIO
          else
            let n = unat (Uint64 (take lenWidth (drop (unat pos) f)))
            in if length f < unat pos + lenWidth + n then Inl ErrIO
               else Inr (take n (drop (unat pos + lenWidth) f)))"

text \<open>Modelled from the spec: \<^verbatim>\<open>store.Close\<close>; with writes going through there is
  nothing left to flush.\<close>

definition store_Close :: "store \<Rightarrow> dir \<Rightarrow> error option \<times> dir" where
  "store_Close s d =
     (case map_of d (store_name s) of None \<Rightarrow> (Some ErrIO, d) | Some f \<Rightarrow> (None, d))"

subsection \<open>Index\<close>

text \<open>Modelled from the spec: \<^verbatim>\<open>index\<close> (\<^verbatim>\<open>index.go\<close>): the file, the logical size
  in bytes, and the length of the memory map.\<close>

record index =
  index_name :: fname
  index_size :: uint64
  mmap_len :: uint64

text \<open>
  Modelled from the spec: \<^verbatim>\<open>newIndex\<close>. The logical size starts at the size of the
  file as found; the file is then grown to \<^verbatim>\<open>MaxIndexBytes\<close> and mapped. (This is why
  \<^verbatim>\<open>Close\<close> has to cut the file back: a file left at its full size is read on the
  next opening as if the zero bytes were entries.)
\<close>

definition newIndex :: "fname \<Rightarrow> Config \<Rightarrow> dir \<Rightarrow> (error + index) \<times> dir" where
  "newIndex n c d =
     (case map_of d n of
        None \<Rightarrow> (Inl ErrIO, d)
      | Some f \<Rightarrow>
          (Inr \<lparr>index_name = n, index_size = of_nat (length f),
                mmap_len = MaxIndexBytes (Segment c)\<rparr>,
           AList.update n (Truncate (unat (MaxIndexBytes (Segment c))) f) d))"

text \<open>
  Modelled from the spec: \<^verbatim>\<open>index.Read\<close>. The argument is an \<^verbatim>\<open>int64\<close>; \<open>-1\<close> asks
  for the last entry. It fails when the index is empty and when the entry is negative
  or beyond the logical size; otherwise it decodes the relative offset and the position.
\<close>

definition index_Read :: "index \<Rightarrow> int \<Rightarrow> dir \<Rightarrow> error + uint32 \<times> uint64" where
  "index_Read i n d =
     (if index_size i = 0 then Inl ErrIndexOutOfRange
      else
        let out = (if n = - 1 then int (unat (index_size i) div entWidth) - 1 else n)
        in if out < 0 \<or> unat (index_size i) < nat out * entWidth + entWidth
           then Inl ErrIndexOutOfRange
           else
             (case map_of d (index_name i) of
                None \<Rightarrow> Inl ErrIO
              | Some f \<Rightarrow>
                  if length f < nat out * entWidth + entWidth then Inl ErrIO
                  else
                    Inr (Uint32 (take offWidth (drop (nat out * entWidth) f)),
                         Uint64 (take posWidth (drop (nat out * entWidth + offWidth) f)))))"

text \<open>Modelled from the spec: \<^verbatim>\<open>index.Write\<close>. It fails when one more entry does
  not fit into the map; otherwise it writes the entry at the logical size and advances
  the logical size by one entry.\<close>

definition index_Write ::
  "index \<Rightarrow> uint32 \<Rightarrow> uint64 \<Rightarrow> dir \<Rightarrow> error option \<times> index \<times> dir" where
  "index_Write i off pos d =
     (if unat (mmap_len i) < unat (index_size i) + entWidth then (Some ErrIndexFull, i, d)
      else
        (case map_of d (index_name i) of
           None \<Rightarrow> (Some ErrIO, i, d)
         | Some f \<Rightarrow>
             if length f < unat (index_size i) + entWidth then (Some ErrIO, i, d)
             else
               (None,
                i\<lparr>index_size := index_size i + of_nat entWidth\<rparr>,
                AList.update (index_name i)
                  (write_at (unat (index_size i)) (PutUint32 off @ PutUint64 pos) f) d)))"

text \<open>Modelled from the spec: \<^verbatim>\<open>index.Close\<close>; the file is cut back to the logical
  size.\<close>

definition index_Close :: "index \<Rightarrow> dir \<Rightarrow> error option \<times> dir" where
  "index_Close i d =
     (case map_of d (index_name i) of
        None \<Rightarrow> (Some ErrIO, d)
      | Some f \<Rightarrow> (None, AList.update (index_name i) (Truncate (unat (index_size i)) f) d))"

text \<open>\<^verbatim>\<open>os.Remove(name)\<close>: fails when there is no such file.\<close>

definition os_Remove :: "fname \<Rightarrow> dir \<Rightarrow> error option \<times> dir" where
  "os_Remove n d =
     (case map_of d n of None \<Rightarrow> (Some ErrIO, d) | Some f \<Rightarrow> (None, AList.delete n d))"

subsection \<open>Segment (\<^verbatim>\<open>segment.go\<close>)\<close>

record segment =
  store :: store
  index :: index
  baseOffset :: uint64
  nextOffset :: uint64
  config :: Config

definition newSegment :: "dir \<Rightarrow> uint64 \<Rightarrow> Config \<Rightarrow> (error + segment) \<times> dir" where
  "newSegment d b c =
     (let d1 = OpenFile (b, StoreExt) d in
      case newStore (b, StoreExt) d1 of
        Inl e \<Rightarrow> (Inl e, d1)
      | Inr st \<Rightarrow>
          let d2 = OpenFile (b, IndexExt) d1 in
          case newIndex (b, IndexExt) c d2 of
            (Inl e, d3) \<Rightarrow> (Inl e, d3)
          | (Inr ix, d3) \<Rightarrow>
              (Inr \<lparr>store = st, index = ix, baseOffset = b,
                    nextOffset =
                      (case index_Read ix (- 1) d3 of
                         Inl e \<Rightarrow> b
                       | Inr (off, pos) \<Rightarrow> b + ucast off + 1),
                    config = c\<rparr>,
               d3))"

definition segment_Append ::
  "codec \<Rightarrow> segment \<Rightarrow> Record \<Rightarrow> dir \<Rightarrow> (error + uint64) \<times> segment \<times> dir" where
  "segment_Append cd s record d =
     (let cur = nextOffset s in
      case Marshal cd (record\<lparr>Offset := cur\<rparr>) of
        None \<Rightarrow> (Inl ErrMarshal, s, d)
      | Some p \<Rightarrow>
          (case store_Append (store s) p d of
             (Inl e, st, d1) \<Rightarrow> (Inl e, s\<lparr>store := st\<rparr>, d1)
           | (Inr (n, pos), st, d1) \<Rightarrow>
               (case index_Write (index s) (ucast (nextOffset s - baseOffset s)) pos d1 of
                  (Some e, ix, d2) \<Rightarrow> (Inl e, s\<lparr>store := st, index := ix\<rparr>, d2)
                | (None, ix, d2) \<Rightarrow>
                    (Inr cur,
                     s\<lparr>store := st, index := ix, nextOffset := nextOffset s + 1\<rparr>,
                     d2))))"

definition segment_Read :: "codec \<Rightarrow> segment \<Rightarrow> uint64 \<Rightarrow> dir \<Rightarrow> error + Record" where
  "segment_Read cd s off d =
     (case index_Read (index s) (sint (off - baseOffset s)) d of
        Inl e \<Rightarrow> Inl e
      | Inr (rel, pos) \<Rightarrow>
          (case store_Read (store s) pos d of
             Inl e \<Rightarrow> Inl e
           | Inr p \<Rightarrow>
               (case Unmarshal cd p of None \<Rightarrow> Inl ErrUnmarshal | Some r \<Rightarrow> Inr r)))"

definition IsMaxed :: "segment \<Rightarrow> bool" where
  "IsMaxed s \<longleftrightarrow>
     store_size (store s) \<ge> MaxStoreBytes (Segment (config s)) \<or>
     index_size (index s) + of_nat entWidth > MaxIndexBytes (Segment (config s))"

definition segment_Close :: "segment \<Rightarrow> dir \<Rightarrow> error option \<times> dir" where
  "segment_Close s d =
     (case index_Close (index s) d of
        (Some e, d1) \<Rightarrow> (Some e, d1)
      | (None, d1) \<Rightarrow> store_Close (store s) d1)"

definition segment_Remove :: "segment \<Rightarrow> dir \<Rightarrow> error option \<times> dir" where
  "segment_Remove s d =
     (case segment_Close s d of
        (Some e, d1) \<Rightarrow> (Some e, d1)
      | (None, d1) \<Rightarrow>
          (case os_Remove (index_name (index s)) d1 of
             (Some e, d2) \<Rightarrow> (Some e, d2)
           | (None, d2) \<Rightarrow> os_Remove (store_name (store s)) d2))"

subsection \<open>The readers/writer lock (\<^verbatim>\<open>sync.RWMutex\<close>)\<close>

text \<open>
  The lock as one goroutine sees it. The documentation of package \<^verbatim>\<open>sync\<close> says of
  \<^verbatim>\<open>Unlock\<close>: "It is a run-time error if rw is not locked for writing on entry to
  Unlock", and of \<^verbatim>\<open>RUnlock\<close>: "It is a run-time error if rw is not locked for reading
  on entry to RUnlock"; the runtime then stops the program with
  \<^verbatim>\<open>fatal error: sync: RUnlock of unlocked RWMutex\<close>. \<^verbatim>\<open>Lock\<close> on a lock that is held
  waits for a release that, with one goroutine, never comes.
\<close>

datatype RWMutex = Unlocked | WriteLocked | ReadLocked nat

definition RWMutex_Lock :: "RWMutex \<Rightarrow> RWMutex exec" where
  "RWMutex_Lock m = (case m of Unlocked \<Rightarrow> Ret WriteLocked | _ \<Rightarrow> Blocks)"

definition RWMutex_Unlock :: "RWMutex \<Rightarrow> RWMutex exec" where
  "RWMutex_Unlock m = (case m of WriteLocked \<Rightarrow> Ret Unlocked | _ \<Rightarrow> Fatal)"

definition RWMutex_RLock :: "RWMutex \<Rightarrow> RWMutex exec" where
  "RWMutex_RLock m =
     (case m of
        Unlocked \<Rightarrow> Ret (ReadLocked 1)
      | ReadLocked n \<Rightarrow> Ret (ReadLocked (Suc n))
      | WriteLocked \<Rightarrow> Blocks)"

definition RWMutex_RUnlock :: "RWMutex \<Rightarrow> RWMutex exec" where
  "RWMutex_RUnlock m =
     (case m of
        ReadLocked n \<Rightarrow> (if n \<le> 1 then Ret Unlocked else Ret (ReadLocked (n - 1)))
      | _ \<Rightarrow> Fatal)"

subsection \<open>Log (\<^verbatim>\<open>log.go\<close>)\<close>

text \<open>
  \<^verbatim>\<open>segments\<close> is a slice of pointers and \<^verbatim>\<open>activeSegment\<close> a pointer to one of the
  same objects, so the segments live in a heap (a list, the address of a segment being
  its position) and the two fields hold addresses. \<open>Dir\<close> is the directory that the
  path \<^verbatim>\<open>l.Dir\<close> names, with its files.
\<close>

record Log =
  mu :: RWMutex
  Dir :: dir
  Config :: Config
  activeSegment :: "nat option"
  segments :: "nat list"
  heap :: "segment list"

definition deref :: "Log \<Rightarrow> nat \<Rightarrow> segment option" where
  "deref l a = (if a < length (heap l) then Some (heap l ! a) else None)"

text \<open>
  A method body that runs between \<^verbatim>\<open>l.mu.X()\<close> and \<^verbatim>\<open>defer l.mu.Y()\<close>: the lock is
  taken, the body runs, and the deferred call runs when the body returns or panics.
\<close>

definition with_lock ::
  "(RWMutex \<Rightarrow> RWMutex exec) \<Rightarrow> (RWMutex \<Rightarrow> RWMutex exec) \<Rightarrow>
   (Log \<Rightarrow> ('a \<times> Log) exec) \<Rightarrow> Log \<Rightarrow> ('a \<times> Log) exec" where
  "with_lock acquire release body l =
     (case acquire (mu l) of
        Ret m \<Rightarrow>
          (case body (l\<lparr>mu := m\<rparr>) of
             Ret (r, l') \<Rightarrow>
               (case release (mu l') of
                  Ret m' \<Rightarrow> Ret (r, l'\<lparr>mu := m'\<rparr>)
                | Panic \<Rightarrow> Panic | Fatal \<Rightarrow> Fatal | Blocks \<Rightarrow> Blocks)
           | Panic \<Rightarrow>
               (case release m of
                  Ret m' \<Rightarrow> Panic
                | Panic \<Rightarrow> Panic | Fatal \<Rightarrow> Fatal | Blocks \<Rightarrow> Blocks)
           | Fatal \<Rightarrow> Fatal
           | Blocks \<Rightarrow> Blocks)
      | Panic \<Rightarrow> Panic | Fatal \<Rightarrow> Fatal | Blocks \<Rightarrow> Blocks)"

definition Log_newSegment :: "Log \<Rightarrow> uint64 \<Rightarrow> error option \<times> Log" where
  "Log_newSegment l off =
     (case newSegment (Dir l) off (Config l) of
        (Inl e, d) \<Rightarrow> (Some e, l\<lparr>Dir := d\<rparr>)
      | (Inr s, d) \<Rightarrow>
          (None,
           l\<lparr>Dir := d, heap := heap l @ [s],
             segments := segments l @ [length (heap l)],
             activeSegment := Some (length (heap l))\<rparr>))"

text \<open>
  \<^verbatim>\<open>setup\<close>: the numbers of the file names are collected and sorted, and since every
  segment has two files the loop opens a segment for every other one of them.
  (\<^verbatim>\<open>os.ReadDir\<close> lists the names in the order of the file names; the numbers are
  sorted before they are used, so the order of the listing does not matter.)
\<close>

fun setup_loop :: "Log \<Rightarrow> uint64 list \<Rightarrow> error option \<times> Log" where
  "setup_loop l [] = (None, l)"
| "setup_loop l (b # bs) =
     (case Log_newSegment l b of
        (Some e, l') \<Rightarrow> (Some e, l')
      | (None, l') \<Rightarrow> setup_loop l' (drop 1 bs))"

definition Log_setup :: "Log \<Rightarrow> error option \<times> Log" where
  "Log_setup l =
     (let baseOffsets = sort (map (\<lambda>(n, f). fst n) (Dir l)) in
      case setup_loop l baseOffsets of
        (Some e, l') \<Rightarrow> (Some e, l')
      | (None, l') \<Rightarrow>
          if segments l' = [] then Log_newSegment l' (InitialOffset (Segment (Config l')))
          else (None, l'))"

definition NewLog :: "dir \<Rightarrow> Config \<Rightarrow> Log \<times> error option" where
  "NewLog d c =
     (let c1 = (if MaxStoreBytes (Segment c) = 0
                then c\<lparr>Segment := (Segment c)\<lparr>MaxIndexBytes := 1024\<rparr>\<rparr> else c);
          c2 = (if MaxIndexBytes (Segment c1) = 0
                then c1\<lparr>Segment := (Segment c1)\<lparr>MaxIndexBytes := 1024\<rparr>\<rparr> else c1);
          l = \<lparr>mu = Unlocked, Dir = d, Config = c2, activeSegment = None,
               segments = [], heap = []\<rparr>
      in case Log_setup l of (e, l') \<Rightarrow> (l', e))"

text \<open>The body of \<^verbatim>\<open>Append\<close>, run with the lock held.\<close>

definition Log_Append_locked ::
  "codec \<Rightarrow> Record \<Rightarrow> Log \<Rightarrow> ((error + uint64) \<times> Log) exec" where
  "Log_Append_locked cd record l =
     (case Option.bind (activeSegment l) (deref l) of
        None \<Rightarrow> Panic
      | Some act \<Rightarrow>
          (case (if IsMaxed act then Log_newSegment l (nextOffset act) else (None, l)) of
             (Some e, l1) \<Rightarrow> Ret (Inl e, l1)
           | (None, l1) \<Rightarrow>
               (case activeSegment l1 of
                  None \<Rightarrow> Panic
                | Some a \<Rightarrow>
                    (case deref l1 a of
                       None \<Rightarrow> Panic
                     | Some s \<Rightarrow>
                         (case segment_Append cd s record (Dir l1) of
                            (r, s', d') \<Rightarrow>
                              Ret (r, l1\<lparr>Dir := d', heap := (heap l1)[a := s']\<rparr>))))))"

definition Log_Append :: "codec \<Rightarrow> Log \<Rightarrow> Record \<Rightarrow> ((error + uint64) \<times> Log) exec" where
  "Log_Append cd l record =
     with_lock RWMutex_Lock RWMutex_Unlock (Log_Append_locked cd record) l"

text \<open>The loop of \<^verbatim>\<open>Read\<close>: the first segment of the slice that covers the offset.\<close>

fun find_segment :: "Log \<Rightarrow> nat list \<Rightarrow> uint64 \<Rightarrow> segment option exec" where
  "find_segment l [] off = Ret None"
| "find_segment l (a # as) off =
     (case deref l a of
        None \<Rightarrow> Panic
      | Some s \<Rightarrow>
          if baseOffset s \<le> off \<and> off < nextOffset s then Ret (Some s)
          else find_segment l as off)"

text \<open>The body of \<^verbatim>\<open>Read\<close>, run with the lock held.\<close>

definition Log_Read_locked ::
  "codec \<Rightarrow> uint64 \<Rightarrow> Log \<Rightarrow> ((error + Record) \<times> Log) exec" where
  "Log_Read_locked cd off l =
     (case find_segment l (segments l) off of
        Ret None \<Rightarrow> Ret (Inl (ErrOffsetOutOfRange off), l)
      | Ret (Some s) \<Rightarrow>
          if nextOffset s \<le> off then Ret (Inl (ErrOffsetOutOfRange off), l)
          else Ret (segment_Read cd s off (Dir l), l)
      | Panic \<Rightarrow> Panic | Fatal \<Rightarrow> Fatal | Blocks \<Rightarrow> Blocks)"

text \<open>\<^verbatim>\<open>Read\<close> takes the lock with \<^verbatim>\<open>l.mu.Lock()\<close> and defers \<^verbatim>\<open>l.mu.RUnlock()\<close>.\<close>

definition Log_Read :: "codec \<Rightarrow> Log \<Rightarrow> uint64 \<Rightarrow> ((error + Record) \<times> Log) exec" where
  "Log_Read cd l off =
     with_lock RWMutex_Lock RWMutex_RUnlock (Log_Read_locked cd off) l"

fun close_all :: "Log \<Rightarrow> nat list \<Rightarrow> dir \<Rightarrow> (error option \<times> dir) exec" where
  "close_all l [] d = Ret (None, d)"
| "close_all l (a # as) d =
     (case deref l a of
        None \<Rightarrow> Panic
      | Some s \<Rightarrow>
          (case segment_Close s d of
             (Some e, d') \<Rightarrow> Ret (Some e, d')
           | (None, d') \<Rightarrow> close_all l as d'))"

definition Log_Close_locked :: "Log \<Rightarrow> (error option \<times> Log) exec" where
  "Log_Close_locked l =
     (case close_all l (segments l) (Dir l) of
        Ret (e, d) \<Rightarrow> Ret (e, l\<lparr>Dir := d\<rparr>)
      | Panic \<Rightarrow> Panic | Fatal \<Rightarrow> Fatal | Blocks \<Rightarrow> Blocks)"

definition Log_Close :: "Log \<Rightarrow> (error option \<times> Log) exec" where
  "Log_Close l = with_lock RWMutex_Lock RWMutex_Unlock Log_Close_locked l"

text \<open>The bodies of \<^verbatim>\<open>LowestOffset\<close> and \<^verbatim>\<open>HighestOffset\<close>; indexing an empty
  slice panics.\<close>

definition Log_LowestOffset_locked :: "Log \<Rightarrow> ((uint64 \<times> error option) \<times> Log) exec" where
  "Log_LowestOffset_locked l =
     (case segments l of
        [] \<Rightarrow> Panic
      | a # as \<Rightarrow>
          (case deref l a of
             None \<Rightarrow> Panic
           | Some s \<Rightarrow> Ret ((baseOffset s, None), l)))"

definition Log_LowestOffset :: "Log \<Rightarrow> ((uint64 \<times> error option) \<times> Log) exec" where
  "Log_LowestOffset l = with_lock RWMutex_Lock RWMutex_RUnlock Log_LowestOffset_locked l"

definition Log_HighestOffset_locked :: "Log \<Rightarrow> ((uint64 \<times> error option) \<times> Log) exec" where
  "Log_HighestOffset_locked l =
     (if segments l = [] then Panic
      else
        (case deref l (last (segments l)) of
           None \<Rightarrow> Panic
         | Some s \<Rightarrow>
             let off = nextOffset s
             in if off = 0 then Ret ((0, None), l) else Ret ((off - 1, None), l)))"

definition Log_HighestOffset :: "Log \<Rightarrow> ((uint64 \<times> error option) \<times> Log) exec" where
  "Log_HighestOffset l = with_lock RWMutex_Lock RWMutex_RUnlock Log_HighestOffset_locked l"

text \<open>The loop of \<^verbatim>\<open>Truncate\<close>; the second argument is the slice built so far. An
  error of \<^verbatim>\<open>Remove\<close> returns from \<^verbatim>\<open>Truncate\<close> before \<^verbatim>\<open>l.segments\<close> is assigned.\<close>

fun truncate_loop ::
  "Log \<Rightarrow> uint64 \<Rightarrow> nat list \<Rightarrow> nat list \<Rightarrow> dir \<Rightarrow> ((error + nat list) \<times> dir) exec" where
  "truncate_loop l lowest [] acc d = Ret (Inr acc, d)"
| "truncate_loop l lowest (a # as) acc d =
     (case deref l a of
        None \<Rightarrow> Panic
      | Some s \<Rightarrow>
          if nextOffset s \<le> lowest + 1 then
            (case segment_Remove s d of
               (Some e, d') \<Rightarrow> Ret (Inl e, d')
             | (None, d') \<Rightarrow> truncate_loop l lowest as acc d')
          else truncate_loop l lowest as (acc @ [a]) d)"

definition Log_Truncate_locked :: "uint64 \<Rightarrow> Log \<Rightarrow> (error option \<times> Log) exec" where
  "Log_Truncate_locked lowest l =
     (case truncate_loop l lowest (segments l) [] (Dir l) of
        Ret (Inl e, d) \<Rightarrow> Ret (Some e, l\<lparr>Dir := d\<rparr>)
      | Ret (Inr segs, d) \<Rightarrow> Ret (None, l\<lparr>Dir := d, segments := segs\<rparr>)
      | Panic \<Rightarrow> Panic | Fatal \<Rightarrow> Fatal | Blocks \<Rightarrow> Blocks)"

definition Log_Truncate :: "Log \<Rightarrow> uint64 \<Rightarrow> (error option \<times> Log) exec" where
  "Log_Truncate l lowest =
     with_lock RWMutex_Lock RWMutex_Unlock (Log_Truncate_locked lowest) l"

text \<open>\<^verbatim>\<open>Reader\<close>: one reader per segment over its store, from position 0.\<close>

definition Log_Reader_locked :: "Log \<Rightarrow> ((store \<times> nat) list \<times> Log) exec" where
  "Log_Reader_locked l =
     (if \<forall>a \<in> set (segments l). a < length (heap l)
      then Ret (map (\<lambda>a. (store (heap l ! a), 0)) (segments l), l)
      else Panic)"

definition Log_Reader :: "Log \<Rightarrow> ((store \<times> nat) list \<times> Log) exec" where
  "Log_Reader l = with_lock RWMutex_Lock RWMutex_RUnlock Log_Reader_locked l"

text \<open>A caller that appends the records of a list one after the other, as the loops
  of \<^verbatim>\<open>log_test.go\<close> do, and collects what each call returned.\<close>

fun Log_Appends ::
  "codec \<Rightarrow> Log \<Rightarrow> Record list \<Rightarrow> ((error + uint64) list \<times> Log) exec" where
  "Log_Appends cd l [] = Ret ([], l)"
| "Log_Appends cd l (r # rs) =
     (case Log_Append cd l r of
        Ret (x, l1) \<Rightarrow>
          (case Log_Appends cd l1 rs of
             Ret (xs, l2) \<Rightarrow> Ret (x # xs, l2)
           | Panic \<Rightarrow> Panic | Fatal \<Rightarrow> Fatal | Blocks \<Rightarrow> Blocks)
      | Panic \<Rightarrow> Panic | Fatal \<Rightarrow> Fatal | Blocks \<Rightarrow> Blocks)"

text \<open>A segment covers an offset: the test in the loop of \<^verbatim>\<open>Read\<close>.\<close>

definition covers :: "segment \<Rightarrow> uint64 \<Rightarrow> bool" where
  "covers s off \<longleftrightarrow> baseOffset s \<le> off \<and> off < nextOffset s"

text \<open>A serialiser for closed examples: the offset in eight bytes, then the payload.\<close>

definition plain_codec :: codec where
  "plain_codec =
     \<lparr>Marshal = (\<lambda>r. Some (PutUint64 (Offset r) @ Value r)),
      Unmarshal = (\<lambda>bs. if length bs < 8 then None
                         else Some \<lparr>Value = drop 8 bs, Offset = Uint64 (take 8 bs)\<rparr>)\<rparr>"

definition mkConfig :: "uint64 \<Rightarrow> uint64 \<Rightarrow> uint64 \<Rightarrow> Config" where
  "mkConfig s i k =
     \<lparr>Segment = \<lparr>MaxStoreBytes = s, MaxIndexBytes = i, InitialOffset = k\<rparr>\<rparr>"

section \<open>Properties\<close>

subsection \<open>Big-endian round trip\<close>

lemma length_enc_be [simp]: "length (enc_be k n) = k"
  by (induction k arbitrary: n) auto

lemma dec_be_snoc: "dec_be (bs @ [b]) = dec_be bs * 256 + unat b"
  by (simp add: dec_be_def)

lemma dec_enc_be: "dec_be (enc_be k n) = n mod 256 ^ k"
proof (induction k arbitrary: n)
  case 0
  show ?case by (simp add: dec_be_def)
next
  case (Suc k)
  have b: "unat (of_nat (n mod 256) :: byte) = n mod 256"
    by (simp add: unat_of_nat)
  have "dec_be (enc_be (Suc k) n) = (n div 256 mod 256 ^ k) * 256 + n mod 256"
    by (simp add: dec_be_snoc Suc.IH b)
  also have "\<dots> = n mod 256 ^ Suc k"
    by (simp add: mod_mult2_eq)
  finally show ?case .
qed

lemma Uint64_PutUint64 [simp]: "Uint64 (PutUint64 w) = w"
proof -
  have "unat w < 256 ^ 8" using unsigned_less [of w] by simp
  then show ?thesis by (simp add: Uint64_def PutUint64_def dec_enc_be)
qed

lemma Uint32_PutUint32 [simp]: "Uint32 (PutUint32 w) = w"
proof -
  have "unat w < 256 ^ 4" using unsigned_less [of w] by simp
  then show ?thesis by (simp add: Uint32_def PutUint32_def dec_enc_be)
qed

lemma length_PutUint64 [simp]: "length (PutUint64 w) = 8"
  by (simp add: PutUint64_def)

lemma length_PutUint32 [simp]: "length (PutUint32 w) = 4"
  by (simp add: PutUint32_def)

subsection \<open>The lock\<close>

lemma with_lock_Lock_RUnlock:
  assumes "mu l = Unlocked"
    and "\<And>r l'. body (l\<lparr>mu := WriteLocked\<rparr>) = Ret (r, l') \<Longrightarrow> mu l' = WriteLocked"
    and "body (l\<lparr>mu := WriteLocked\<rparr>) \<noteq> Blocks"
  shows "with_lock RWMutex_Lock RWMutex_RUnlock body l = Fatal"
  using assms
  by (auto simp: with_lock_def RWMutex_Lock_def RWMutex_RUnlock_def
      split: exec.splits prod.splits)

lemma with_lock_Lock_Unlock:
  assumes "mu l = Unlocked"
    and "body (l\<lparr>mu := WriteLocked\<rparr>) = Ret (r, l')"
    and "mu l' = WriteLocked"
  shows "with_lock RWMutex_Lock RWMutex_Unlock body l = Ret (r, l'\<lparr>mu := Unlocked\<rparr>)"
  using assms
  by (simp add: with_lock_def RWMutex_Lock_def RWMutex_Unlock_def)

lemma with_lock_held:
  assumes "mu l \<noteq> Unlocked"
  shows "with_lock RWMutex_Lock release body l = Blocks"
  using assms by (cases "mu l") (simp_all add: with_lock_def RWMutex_Lock_def)

lemma find_segment_not_Fatal: "find_segment l as off \<noteq> Fatal \<and> find_segment l as off \<noteq> Blocks"
  by (induction as) (auto split: option.splits)

lemma Log_Read_locked_cases:
  "Log_Read_locked cd off l = Panic \<or> (\<exists>r. Log_Read_locked cd off l = Ret (r, l))"
  using find_segment_not_Fatal [of l "segments l" off]
  by (auto simp: Log_Read_locked_def split: exec.splits option.splits)

lemma Log_Read_Fatal: "mu l = Unlocked \<Longrightarrow> Log_Read cd l off = Fatal"
  unfolding Log_Read_def
  using Log_Read_locked_cases [of cd off "l\<lparr>mu := WriteLocked\<rparr>"]
  by (intro with_lock_Lock_RUnlock) auto

lemma Log_LowestOffset_Fatal: "mu l = Unlocked \<Longrightarrow> Log_LowestOffset l = Fatal"
  unfolding Log_LowestOffset_def
  by (intro with_lock_Lock_RUnlock)
    (auto simp: Log_LowestOffset_locked_def split: list.splits option.splits)

lemma Log_HighestOffset_Fatal: "mu l = Unlocked \<Longrightarrow> Log_HighestOffset l = Fatal"
  unfolding Log_HighestOffset_def
  by (intro with_lock_Lock_RUnlock)
    (auto simp: Log_HighestOffset_locked_def Let_def split: if_splits option.splits)

lemma Log_Reader_Fatal: "mu l = Unlocked \<Longrightarrow> Log_Reader l = Fatal"
  unfolding Log_Reader_def
  by (intro with_lock_Lock_RUnlock) (auto simp: Log_Reader_locked_def split: if_splits)

subsection \<open>Configuration defaults of \<^verbatim>\<open>NewLog\<close>\<close>

lemma Log_newSegment_Config [simp]: "Config (snd (Log_newSegment l b)) = Config l"
  by (simp add: Log_newSegment_def split: prod.splits sum.splits)

lemma setup_loop_Config [simp]: "Config (snd (setup_loop l bs)) = Config l"
proof (induction l bs rule: setup_loop.induct)
  case (1 l)
  show ?case by simp
next
  case (2 l b bs)
  show ?case
  proof (cases "Log_newSegment l b")
    case (Pair e l')
    have c: "Config l' = Config l"
      using Log_newSegment_Config [of l b] Pair by simp
    show ?thesis
    proof (cases e)
      case None
      with 2 Pair c show ?thesis by simp
    next
      case (Some x)
      with Pair c show ?thesis by simp
    qed
  qed
qed

lemma Log_setup_Config [simp]: "Config (snd (Log_setup l)) = Config l"
proof -
  obtain e l' where sl: "setup_loop l (sort (map (\<lambda>(n, f). fst n) (Dir l))) = (e, l')"
    by (cases "setup_loop l (sort (map (\<lambda>(n, f). fst n) (Dir l)))")
  have c: "Config l' = Config l"
    using setup_loop_Config [of l "sort (map (\<lambda>(n, f). fst n) (Dir l))"] sl by simp
  show ?thesis
    using sl c Log_newSegment_Config [of l' "InitialOffset (Segment (Config l'))"]
    by (cases e) (simp_all add: Log_setup_def)
qed

lemma NewLog_Config:
  "Config (fst (NewLog d c)) =
     (if MaxStoreBytes (Segment c) = 0 \<or> MaxIndexBytes (Segment c) = 0
      then c\<lparr>Segment := (Segment c)\<lparr>MaxIndexBytes := 1024\<rparr>\<rparr> else c)"
proof -
  have "\<And>l. Config (fst (case Log_setup l of (e, l') \<Rightarrow> (l', e))) = Config l"
    using Log_setup_Config by (simp add: split_beta)
  then show ?thesis
    by (simp add: NewLog_def Let_def)
qed

text \<open>
  C8. \<^verbatim>\<open>NewLog\<close> never changes \<^verbatim>\<open>MaxStoreBytes\<close>; a zero \<^verbatim>\<open>MaxStoreBytes\<close> sets
  \<^verbatim>\<open>MaxIndexBytes\<close> to 1024 whatever its value was, a zero \<^verbatim>\<open>MaxIndexBytes\<close> is set
  to 1024, and \<^verbatim>\<open>MaxIndexBytes\<close> is kept only when both fields are non-zero. So
  \<^verbatim>\<open>MaxStoreBytes\<close> has no default, and \<^verbatim>\<open>MaxIndexBytes\<close> is defaulted also when its
  own value is not zero.
\<close>

theorem NewLog_capacity_defaults:
  "MaxStoreBytes (Segment (Config (fst (NewLog d c)))) = MaxStoreBytes (Segment c) \<and>
   (MaxStoreBytes (Segment c) = 0 \<longrightarrow>
      MaxIndexBytes (Segment (Config (fst (NewLog d c)))) = 1024) \<and>
   (MaxIndexBytes (Segment c) = 0 \<longrightarrow>
      MaxIndexBytes (Segment (Config (fst (NewLog d c)))) = 1024) \<and>
   (MaxStoreBytes (Segment c) \<noteq> 0 \<and> MaxIndexBytes (Segment c) \<noteq> 0 \<longrightarrow>
      MaxIndexBytes (Segment (Config (fst (NewLog d c)))) = MaxIndexBytes (Segment c))"
  by (simp add: NewLog_Config)

theorem NewLog_capacity_defaults_witness:
  "MaxStoreBytes (Segment (mkConfig 0 5000 0)) = 0 \<and>
   MaxIndexBytes (Segment (mkConfig 0 5000 0)) = 5000 \<and>
   MaxStoreBytes (Segment (Config (fst (NewLog [] (mkConfig 0 5000 0))))) = 0 \<and>
   MaxIndexBytes (Segment (Config (fst (NewLog [] (mkConfig 0 5000 0))))) = 1024"
  using NewLog_capacity_defaults [of "[]" "mkConfig 0 5000 0"]
  by (simp add: mkConfig_def)

end
